theory Spec2Isabelle
  imports Main "HOL-Library.Sublist"
begin

section \<open>The operating system as the build driver sees it\<close>

text \<open>
  The node machinery of \<^verbatim>\<open>solid_node/node/base.py\<close> talks to the file system
  (\<^verbatim>\<open>open\<close>, \<^verbatim>\<open>os.path.exists\<close>, \<^verbatim>\<open>os.path.getmtime\<close>, \<^verbatim>\<open>os.utime\<close>,
  \<^verbatim>\<open>os.remove\<close>, \<^verbatim>\<open>os.mkdir\<close>), to the process table (\<^verbatim>\<open>os.kill\<close>,
  \<^verbatim>\<open>Popen\<close>) and to the clock (\<^verbatim>\<open>time.time\<close>). All of it is explicit state here.

  Time stamps are exact numbers: what \<^verbatim>\<open>os.utime\<close> stores is what
  \<^verbatim>\<open>os.path.getmtime\<close> reads back. The kind of an entry (regular file or
  directory) is not tracked: the artifact and source paths of a node name regular
  files, the components of its build path name directories. Opening a file for writing
  and launching the renderer do not fail: the renderer is installed and the build
  directory can be written to. Every other failure the code can meet is a result.
\<close>

record entry =
  content :: string
  st_atime :: int
  st_mtime :: int

text \<open>The payload of the pending-job signal \<^verbatim>\<open>StlRenderStart\<close>; the subprocess
  handle is the identifier of the process.\<close>

record job =
  job_proc :: int
  job_stl_file :: string
  job_mtime :: int
  job_lock_file :: string

datatype exn =
    FileNotFoundError
  | FileExistsError
  | PermissionError
  | ProcessLookupError
  | ValueError
  | OverflowError
  | NotImplementedError
  | TypeError
  | ValidationError
  | ModuleNotFoundError
  | BdbQuit
  | StlRenderStart job

text \<open>What the kernel answers when signal 0 is sent to an identifier: delivered, no such
  process (\<^verbatim>\<open>ESRCH\<close>), or a process that the caller may not signal (\<^verbatim>\<open>EPERM\<close>).\<close>

datatype kill_answer = Delivered | ESRCH | EPERM

text \<open>What happens at the \<^verbatim>\<open>import ipdb; ipdb.set_trace()\<close> of the directory loop:
  the module is missing, or the person at the prompt continues, or quits.\<close>

datatype debugger = NoIpdb | Continue | Quit

text \<open>
  The world: the files by path, the clock, the answer of the kernel to signal 0 for each
  identifier, the identifier of the process that runs the build and the one the next
  child will get, the commands launched so far, the directories the system refuses to
  create (and with which error), and the debugger.
\<close>

record world =
  fs :: "string \<Rightarrow> entry option"
  clock :: int
  kill0 :: "int \<Rightarrow> kill_answer"
  self_pid :: int
  next_pid :: int
  spawned :: "(int \<times> string list) list"
  mkdir_refused :: "string \<Rightarrow> exn option"
  ipdb :: debugger

definition path_exists :: "world \<Rightarrow> string \<Rightarrow> bool" where
  "path_exists w p = (fs w p \<noteq> None)"

definition getmtime :: "world \<Rightarrow> string \<Rightarrow> exn + int" where
  "getmtime w p = (case fs w p of None \<Rightarrow> Inl FileNotFoundError | Some e \<Rightarrow> Inr (st_mtime e))"

definition open_w :: "world \<Rightarrow> string \<Rightarrow> world" where
  \<comment> \<open>\<^verbatim>\<open>open(p, 'w')\<close>: the file is created, or truncated, at the current time.\<close>
  "open_w w p =
     w\<lparr>fs := (fs w)(p \<mapsto>
        \<lparr>content = [],
         st_atime = (case fs w p of None \<Rightarrow> clock w | Some e \<Rightarrow> st_atime e),
         st_mtime = clock w\<rparr>)\<rparr>"

definition fwrite :: "world \<Rightarrow> string \<Rightarrow> string \<Rightarrow> world" where
  \<comment> \<open>\<^verbatim>\<open>fh.write(s)\<close> on a handle opened at \<open>p\<close>; text written to a file that was
      unlinked in between is not seen at the path.\<close>
  "fwrite w p s =
     (case fs w p of
        None \<Rightarrow> w
      | Some e \<Rightarrow> w\<lparr>fs := (fs w)(p \<mapsto> e\<lparr>content := content e @ s, st_mtime := clock w\<rparr>)\<rparr>)"

definition utime :: "world \<Rightarrow> string \<Rightarrow> int \<times> int \<Rightarrow> (exn + unit) \<times> world" where
  "utime w p atime_mtime =
     (case fs w p of
        None \<Rightarrow> (Inl FileNotFoundError, w)
      | Some e \<Rightarrow>
          (Inr (), w\<lparr>fs := (fs w)(p \<mapsto> e\<lparr>st_atime := fst atime_mtime, st_mtime := snd atime_mtime\<rparr>)\<rparr>))"

definition remove :: "world \<Rightarrow> string \<Rightarrow> (exn + unit) \<times> world" where
  "remove w p =
     (case fs w p of
        None \<Rightarrow> (Inl FileNotFoundError, w)
      | Some e \<Rightarrow> (Inr (), w\<lparr>fs := (fs w)(p := None)\<rparr>))"

definition mkdir :: "world \<Rightarrow> string \<Rightarrow> (exn + unit) \<times> world" where
  \<comment> \<open>\<^verbatim>\<open>os.mkdir\<close>: refused when the path exists, or when the system says so
      (\<open>mkdir_refused\<close>: no permission, no parent directory, ...).\<close>
  "mkdir w p =
     (if path_exists w p then (Inl FileExistsError, w)
      else case mkdir_refused w p of
             Some e \<Rightarrow> (Inl e, w)
           | None \<Rightarrow>
               (Inr (), w\<lparr>fs := (fs w)(p \<mapsto>
                  \<lparr>content = [], st_atime = clock w, st_mtime = clock w\<rparr>)\<rparr>))"

definition os_kill :: "world \<Rightarrow> int \<Rightarrow> exn + unit" where
  \<comment> \<open>\<^verbatim>\<open>os.kill(pid, 0)\<close>; an identifier that does not fit a C \<^verbatim>\<open>int\<close> is refused
      before the kernel is asked.\<close>
  "os_kill w pid =
     (if pid < - 2147483648 \<or> 2147483647 < pid then Inl OverflowError
      else case kill0 w pid of
             Delivered \<Rightarrow> Inr ()
           | ESRCH \<Rightarrow> Inl ProcessLookupError
           | EPERM \<Rightarrow> Inl PermissionError)"

definition Popen :: "world \<Rightarrow> string list \<Rightarrow> int \<times> world" where
  \<comment> \<open>The child gets the next identifier the system hands out; it is a live process
      of the caller, and the call does not wait for it.\<close>
  "Popen w args =
     (next_pid w,
      w\<lparr>kill0 := (kill0 w)(next_pid w := Delivered),
        spawned := spawned w @ [(next_pid w, args)],
        next_pid := next_pid w + 1\<rparr>)"

subsection \<open>Integers as text\<close>

text \<open>
  \<^verbatim>\<open>int(s)\<close> on ASCII text: white space around, an optional sign, decimal digits with
  single underscores between digits. Anything else is a \<^verbatim>\<open>ValueError\<close>. \<^verbatim>\<open>f'{n}'\<close>
  is the decimal numeral of \<open>n\<close>.
\<close>

definition is_space :: "char \<Rightarrow> bool" where
  "is_space c = (c \<in> set [CHR '' '', CHR 0x09, CHR 0x0A, CHR 0x0B, CHR 0x0C, CHR 0x0D])"

definition strip :: "string \<Rightarrow> string" where
  "strip s = rev (dropWhile is_space (rev (dropWhile is_space s)))"

definition is_digit :: "char \<Rightarrow> bool" where
  "is_digit c = (48 \<le> (of_char c :: nat) \<and> (of_char c :: nat) \<le> 57)"

definition digit_val :: "char \<Rightarrow> nat" where
  "digit_val c = of_char c - 48"

fun parse_digits :: "nat \<Rightarrow> string \<Rightarrow> nat option" where
  "parse_digits acc [] = Some acc"
| "parse_digits acc (c # cs) =
     (if is_digit c then parse_digits (10 * acc + digit_val c) cs
      else if c = CHR ''_'' then
        (case cs of
           [] \<Rightarrow> None
         | d # ds \<Rightarrow> if is_digit d then parse_digits (10 * acc + digit_val d) ds else None)
      else None)"

definition parse_unsigned :: "string \<Rightarrow> nat option" where
  "parse_unsigned s =
     (case s of
        [] \<Rightarrow> None
      | c # cs \<Rightarrow> if is_digit c then parse_digits (digit_val c) cs else None)"

definition py_int :: "string \<Rightarrow> int option" where
  "py_int s =
     (case strip s of
        [] \<Rightarrow> None
      | c # cs \<Rightarrow>
          if c = CHR ''-'' then map_option (\<lambda>n. - int n) (parse_unsigned cs)
          else if c = CHR ''+'' then map_option int (parse_unsigned cs)
          else map_option int (parse_unsigned (c # cs)))"

definition digit_char :: "nat \<Rightarrow> char" where
  "digit_char n = char_of (48 + n)"

fun str_nat :: "nat \<Rightarrow> string" where
  "str_nat n = (if n < 10 then [digit_char n] else str_nat (n div 10) @ [digit_char (n mod 10)])"

declare str_nat.simps [simp del]

definition str_int :: "int \<Rightarrow> string" where
  "str_int i = (if i < 0 then CHR ''-'' # str_nat (nat (- i)) else str_nat (nat i))"

section \<open>Nodes\<close>

text \<open>
  The attributes \<^verbatim>\<open>__init__\<close> sets. The artifact paths are the f-strings of the
  constructor over \<^verbatim>\<open>basepath\<close> and \<^verbatim>\<open>basename\<close>. \<^verbatim>\<open>files\<close> is a Python set; the
  list is its iteration order. \<^verbatim>\<open>_assembled\<close> starts as \<^verbatim>\<open>False\<close> (here \<open>None\<close>) and
  then holds the assembled object; solid2 objects define neither \<^verbatim>\<open>__bool__\<close> nor
  \<^verbatim>\<open>__len__\<close>, so an object is true where \<^verbatim>\<open>assemble\<close> tests it.
\<close>

record ('m, 'op) node =
  name :: string
  operations :: "'op list"
  src :: string
  basedir :: string
  build_dir :: string
  basename :: string
  basepath :: string
  files :: "string list"
  model :: "'m option"
  root :: string
  assembled :: "'m option"
  rigid :: bool

definition scad_file :: "('m, 'op) node \<Rightarrow> string" where
  "scad_file d = basepath d @ ''.scad''"

definition stl_file :: "('m, 'op) node \<Rightarrow> string" where
  "stl_file d = basepath d @ ''.stl''"

definition mesh_scad_file :: "('m, 'op) node \<Rightarrow> string" where
  "mesh_scad_file d = basepath d @ ''.mesh.scad''"

definition mesh_stl_file :: "('m, 'op) node \<Rightarrow> string" where
  "mesh_stl_file d = basepath d @ ''.mesh.stl''"

definition lock_file :: "('m, 'op) node \<Rightarrow> string" where
  "lock_file d = basepath d @ ''.stl.lock''"


subsection \<open>Logical time and the up-to-date check\<close>

fun getmtimes :: "world \<Rightarrow> string list \<Rightarrow> exn + int list" where
  "getmtimes w [] = Inr []"
| "getmtimes w (p # ps) =
     (case getmtime w p of
        Inl e \<Rightarrow> Inl e
      | Inr t \<Rightarrow> (case getmtimes w ps of Inl e \<Rightarrow> Inl e | Inr ts \<Rightarrow> Inr (t # ts)))"

definition py_max :: "int list \<Rightarrow> exn + int" where
  "py_max ts = (case ts of [] \<Rightarrow> Inl ValueError | t # ts' \<Rightarrow> Inr (fold max ts' t))"

definition mtime :: "world \<Rightarrow> ('m, 'op) node \<Rightarrow> exn + int" where
  "mtime w d = (case getmtimes w (files d) of Inl e \<Rightarrow> Inl e | Inr ts \<Rightarrow> py_max ts)"

definition up_to_date :: "world \<Rightarrow> ('m, 'op) node \<Rightarrow> string \<Rightarrow> exn + bool" where
  "up_to_date w d path =
     (if \<not> path_exists w path then Inr False
      else case getmtime w path of
             Inl e \<Rightarrow> Inl e
           | Inr t \<Rightarrow> (case mtime w d of Inl e \<Rightarrow> Inl e | Inr lt \<Rightarrow> Inr (t = lt)))"

subsection \<open>The render lock and binary generation\<close>

definition stl_generation_locked :: "world \<Rightarrow> ('m, 'op) node \<Rightarrow> exn + bool" where
  "stl_generation_locked w d =
     (case fs w (lock_file d) of
        None \<Rightarrow> Inr False
      | Some e \<Rightarrow>
          (case py_int (content e) of
             None \<Rightarrow> Inr False
           | Some pid \<Rightarrow>
               (case os_kill w pid of
                  Inr _ \<Rightarrow> Inr True
                | Inl ProcessLookupError \<Rightarrow> Inr False
                | Inl x \<Rightarrow> Inl x)))"

definition remove_tolerant :: "world \<Rightarrow> string \<Rightarrow> (exn + unit) \<times> world" where
  \<comment> \<open>\<^verbatim>\<open>try: os.remove(p) except FileNotFoundError: pass\<close>\<close>
  "remove_tolerant w p =
     (case remove w p of
        (Inl FileNotFoundError, w') \<Rightarrow> (Inr (), w')
      | r \<Rightarrow> r)"

definition generate_stl :: "('m, 'op) node \<Rightarrow> world \<Rightarrow> (exn + unit) \<times> world" where
  "generate_stl d w =
     (case up_to_date w d (stl_file d) of
        Inl e \<Rightarrow> (Inl e, w)
      | Inr True \<Rightarrow> (Inr (), w)
      | Inr False \<Rightarrow>
          if \<not> rigid d then (Inr (), w)
          else case stl_generation_locked w d of
                 Inl e \<Rightarrow> (Inl e, w)
               | Inr True \<Rightarrow> (Inr (), w)
               | Inr False \<Rightarrow>
                   (let w1 = open_w w (lock_file d) in
                    case remove_tolerant w1 (stl_file d) of
                      (Inl e, w2) \<Rightarrow> (Inl e, w2)
                    | (Inr _, w2) \<Rightarrow>
                        (let (pid, w3) =
                               Popen w2 [''openscad'', scad_file d, ''-o'', stl_file d];
                             w4 = fwrite w3 (lock_file d) (str_int pid)
                         in case mtime w4 d of
                              Inl e \<Rightarrow> (Inl e, w4)
                            | Inr t \<Rightarrow>
                                (Inl (StlRenderStart
                                        \<lparr>job_proc = pid, job_stl_file = stl_file d,
                                         job_mtime = t, job_lock_file = lock_file d\<rparr>),
                                 w4))))"

text \<open>
  What the renderer did by the time \<^verbatim>\<open>proc.wait()\<close> returns: its exit status, and the
  binary it wrote to the output path of its command line, if it wrote one.
\<close>

record run =
  exit_status :: int
  written :: "string option"

definition proc_wait :: "job \<Rightarrow> run \<Rightarrow> world \<Rightarrow> int \<times> world" where
  "proc_wait j r w =
     (exit_status r,
      (case written r of
         None \<Rightarrow> w
       | Some bytes \<Rightarrow> fwrite (open_w w (job_stl_file j)) (job_stl_file j) bytes)
      \<lparr>kill0 := (kill0 w)(job_proc j := ESRCH)\<rparr>)"

definition finish :: "job \<Rightarrow> world \<Rightarrow> (exn + unit) \<times> world" where
  "finish j w =
     (case utime w (job_stl_file j) (clock w, job_mtime j) of
        (Inl e, w1) \<Rightarrow> (Inl e, w1)
      | (Inr _, w1) \<Rightarrow>
          if path_exists w1 (job_lock_file j) then remove w1 (job_lock_file j)
          else (Inr (), w1))"

definition wait :: "job \<Rightarrow> run \<Rightarrow> world \<Rightarrow> (exn + unit) \<times> world" where
  "wait j r w = (let (status, w1) = proc_wait j r w in finish j w1)"

subsection \<open>What a concrete node class supplies\<close>

text \<open>
  \<^verbatim>\<open>render\<close>, \<^verbatim>\<open>validate\<close> and \<^verbatim>\<open>as_scad\<close> are methods of the concrete node
  class: they may change the node and the files, and they may raise. The solid2 library
  (\<^verbatim>\<open>scad_render\<close>, \<^verbatim>\<open>import_stl\<close>), the \<^verbatim>\<open>scad\<close> method of the operations and
  \<^verbatim>\<open>os.path.relpath\<close> are functions of their arguments. A Python value that may be
  \<^verbatim>\<open>None\<close> is an \<open>option\<close>; the objects of type \<open>'m\<close> are solid2 objects. The methods
  of a class see the node they belong to, not its children.
\<close>

record ('r, 'm, 'op) hooks =
  render :: "('m, 'op) node \<times> world \<Rightarrow> (exn + 'r) \<times> ('m, 'op) node \<times> world"
  validate :: "'r \<Rightarrow> ('m, 'op) node \<times> world \<Rightarrow> (exn + unit) \<times> ('m, 'op) node \<times> world"
  as_scad :: "'r \<Rightarrow> ('m, 'op) node \<times> world \<Rightarrow> (exn + 'm) \<times> ('m, 'op) node \<times> world"
  scad_render :: "'m option \<Rightarrow> exn + string"
  import_stl :: "string \<Rightarrow> 'm"
  op_scad :: "'op \<Rightarrow> 'm option \<Rightarrow> exn + 'm"
  relpath :: "string \<Rightarrow> string \<Rightarrow> string"

definition path_join :: "string \<Rightarrow> string \<Rightarrow> string" where
  \<comment> \<open>\<^verbatim>\<open>os.path.join\<close> of two POSIX paths\<close>
  "path_join a b =
     (if b \<noteq> [] \<and> hd b = CHR ''/'' then b
      else if a = [] \<or> last a = CHR ''/'' then a @ b
      else a @ ''/'' @ b)"

subsection \<open>Assembly\<close>



definition scad_code :: "('r, 'm, 'op) hooks \<Rightarrow> ('m, 'op) node \<Rightarrow> exn + string" where
  "scad_code H d = scad_render H (model d)"

definition generate_scad ::
  "('r, 'm, 'op) hooks \<Rightarrow> ('m, 'op) node \<Rightarrow> world \<Rightarrow> (exn + unit) \<times> world" where
  \<comment> \<open>The file is opened before the text is rendered; the closing \<^verbatim>\<open>print\<close> reads the
      logical time once more, of the same files.\<close>
  "generate_scad H d w =
     (let w1 = open_w w (scad_file d) in
      case scad_code H d of
        Inl e \<Rightarrow> (Inl e, w1)
      | Inr code \<Rightarrow>
          (let w2 = fwrite w1 (scad_file d) code in
           case mtime w2 d of
             Inl e \<Rightarrow> (Inl e, w2)
           | Inr t \<Rightarrow> utime w2 (scad_file d) (clock w2, t)))"




subsection \<open>Triggering the binaries of a tree\<close>



subsection \<open>The build directories\<close>

fun split_on :: "char \<Rightarrow> string \<Rightarrow> string list" where
  \<comment> \<open>\<^verbatim>\<open>s.split(sep)\<close> for a separator of one character\<close>
  "split_on sep [] = [[]]"
| "split_on sep (c # cs) =
     (if c = sep then [] # split_on sep cs
      else (case split_on sep cs of
              [] \<Rightarrow> [[c]]
            | x # xs \<Rightarrow> (c # x) # xs))"

fun join_slash :: "string list \<Rightarrow> string" where
  "join_slash [] = []"
| "join_slash [x] = x"
| "join_slash (x # y # ys) = x @ ''/'' @ join_slash (y # ys)"

fun build_dirs_loop :: "string list \<Rightarrow> string list \<Rightarrow> world \<Rightarrow> (exn + unit) \<times> world" where
  "build_dirs_loop build_dirs [] w = (Inr (), w)"
| "build_dirs_loop build_dirs (c # path) w =
     (if \<not> path_exists w (join_slash (build_dirs @ [c])) then
        (case mkdir w (join_slash (build_dirs @ [c])) of
           (Inr _, w1) \<Rightarrow> build_dirs_loop (build_dirs @ [c]) path w1
         | (Inl e, w1) \<Rightarrow>
             (case ipdb w1 of
                NoIpdb \<Rightarrow> (Inl ModuleNotFoundError, w1)
              | Quit \<Rightarrow> (Inl BdbQuit, w1)
              | Continue \<Rightarrow> build_dirs_loop (build_dirs @ [c]) path w1))
      else build_dirs_loop (build_dirs @ [c]) path w)"

definition make_build_dirs :: "('m, 'op) node \<Rightarrow> world \<Rightarrow> (exn + unit) \<times> world" where
  "make_build_dirs d w = build_dirs_loop [] (split_on CHR ''/'' (build_dir d)) w"

subsection \<open>The logical time, in the words of the specification\<close>

text \<open>The logical time as the specification words it: the maximum last-modification
  time over the contributing files, defined when there is at least one and all exist.\<close>

definition logical_time :: "world \<Rightarrow> string list \<Rightarrow> int option" where
  "logical_time w ps =
     (if ps \<noteq> [] \<and> list_all (\<lambda>p. fs w p \<noteq> None) ps
      then Some (Max (set (map (\<lambda>p. st_mtime (the (fs w p))) ps)))
      else None)"

subsection \<open>The state of the render lock, in the words of the specification\<close>

definition lock_owner :: "world \<Rightarrow> ('m, 'op) node \<Rightarrow> int option" where
  \<comment> \<open>the identifier stored in the lock file, when there is a lock file and it parses\<close>
  "lock_owner w d = (case fs w (lock_file d) of None \<Rightarrow> None | Some e \<Rightarrow> py_int (content e))"

definition pid_range :: "int \<Rightarrow> bool" where
  "pid_range pid = (- 2147483648 \<le> pid \<and> pid \<le> 2147483647)"

definition live :: "world \<Rightarrow> int \<Rightarrow> bool" where
  \<comment> \<open>a process with this identifier exists: the kernel does not answer \<^verbatim>\<open>ESRCH\<close>\<close>
  "live w pid = (pid_range pid \<and> kill0 w pid \<noteq> ESRCH)"

definition lock_live :: "world \<Rightarrow> ('m, 'op) node \<Rightarrow> bool" where
  \<comment> \<open>the lock is held by a live process\<close>
  "lock_live w d = (case lock_owner w d of None \<Rightarrow> False | Some pid \<Rightarrow> live w pid)"

definition lock_held :: "world \<Rightarrow> ('m, 'op) node \<Rightarrow> bool" where
  \<comment> \<open>the lock is held by a live process that the caller may signal\<close>
  "lock_held w d =
     (case lock_owner w d of None \<Rightarrow> False | Some pid \<Rightarrow> pid_range pid \<and> kill0 w pid = Delivered)"

definition lock_free :: "world \<Rightarrow> ('m, 'op) node \<Rightarrow> bool" where
  \<comment> \<open>no lock file, or unreadable content, or the identifier of no process\<close>
  "lock_free w d =
     (case lock_owner w d of None \<Rightarrow> True | Some pid \<Rightarrow> pid_range pid \<and> kill0 w pid = ESRCH)"

definition binary_current :: "world \<Rightarrow> ('m, 'op) node \<Rightarrow> bool" where
  \<comment> \<open>the binary artifact exists and carries the logical time of the node\<close>
  "binary_current w d =
     (case fs w (stl_file d) of
        None \<Rightarrow> False
      | Some e \<Rightarrow> logical_time w (files d) = Some (st_mtime e))"

definition launched :: "('m, 'op) node \<Rightarrow> world \<Rightarrow> world" where
  \<comment> \<open>the world after \<^verbatim>\<open>generate_stl\<close> has started the renderer\<close>
  "launched d w =
     w\<lparr>kill0 := (kill0 w)(next_pid w := Delivered),
       spawned := spawned w @ [(next_pid w, [''openscad'', scad_file d, ''-o'', stl_file d])],
       next_pid := next_pid w + 1,
       fs := (fs w)(stl_file d := None,
               lock_file d \<mapsto>
                 \<lparr>content = str_int (next_pid w),
                  st_atime = (case fs w (lock_file d) of None \<Rightarrow> clock w | Some e \<Rightarrow> st_atime e),
                  st_mtime = clock w\<rparr>)\<rparr>"

subsection \<open>Calling \<^verbatim>\<open>assemble\<close> again and again\<close>


subsection \<open>The order of a trigger, in the words of the specification\<close>




subsection \<open>Construction\<close>

definition dirname :: "string \<Rightarrow> string" where
  \<comment> \<open>\<^verbatim>\<open>os.path.dirname\<close> of a POSIX path\<close>
  "dirname p =
     (let head = rev (dropWhile (\<lambda>c. c \<noteq> CHR ''/'') (rev p)) in
      if head \<noteq> [] \<and> \<not> list_all (\<lambda>c. c = CHR ''/'') head
      then rev (dropWhile (\<lambda>c. c = CHR ''/'') (rev head))
      else head)"

fun join_comma :: "string list \<Rightarrow> string" where
  "join_comma [] = []"
| "join_comma [x] = x"
| "join_comma (x # y # ys) = x @ '','' @ join_comma (y # ys)"

definition init ::
  "('r, 'm, 'op) hooks \<Rightarrow> string \<Rightarrow> string \<Rightarrow> string option \<Rightarrow> bool \<Rightarrow> string list \<Rightarrow>
     string option \<Rightarrow> world \<Rightarrow> (exn + ('m, 'op) node) \<times> world" where
  \<comment> \<open>\<^verbatim>\<open>__init__\<close> of a class called \<open>cls\<close>, defined in the file \<open>cls_file\<close>, with the
      class attribute \<open>cls_rigid\<close>; \<open>env\<close> is \<^verbatim>\<open>SOLID_BUILD_DIR\<close>, \<open>args\<close> the
      \<^verbatim>\<open>str\<close> of each positional argument.\<close>
  "init H cls cls_file env cls_rigid args name_arg w =
     (let given = (case name_arg of None \<Rightarrow> [] | Some n \<Rightarrow> n);
          nm = (if given = [] then join_comma args else given);
          base = dirname cls_file;
          bdir = path_join (relpath H (case env of None \<Rightarrow> ''_build'' | Some b \<Rightarrow> b) ''.'')
                   (relpath H base ''.'');
          script = (let f = last (split_on CHR ''/'' cls_file) in take (length f - 3) f);
          bname = (if nm \<noteq> [] then script @ ''-'' @ nm else script);
          d = \<lparr>name = (if given = [] then cls else given), operations = [], src = cls_file,
               basedir = base, build_dir = bdir, basename = bname,
               basepath = path_join bdir bname, files = [cls_file], model = None,
               root = base, assembled = None, rigid = cls_rigid\<rparr>
      in case make_build_dirs d w of
           (Inl e, w') \<Rightarrow> (Inl e, w')
         | (Inr _, w') \<Rightarrow> (Inr d, w'))"

subsection \<open>A part, and the worlds it is built in\<close>

definition part :: "(string, string) node" where
  "part = \<lparr>name = ''Part'', operations = [], src = ''parts/part.py'', basedir = ''parts'',
      build_dir = ''_build/parts'', basename = ''part'', basepath = ''_build/parts/part'',
      files = [''parts/part.py''], model = None, root = ''parts'', assembled = None,
      rigid = True\<rparr>"

definition fresh_world :: world where
  \<comment> \<open>the source of the part, last modified at 100; nothing built yet; the build runs
      as process 4242\<close>
  "fresh_world =
     \<lparr>fs = [''parts/part.py'' \<mapsto> \<lparr>content = ''source'', st_atime = 7, st_mtime = 100\<rparr>],
      clock = 500, kill0 = (\<lambda>pid. if pid = 4242 then Delivered else ESRCH), self_pid = 4242,
      next_pid = 4243, spawned = [],
      mkdir_refused = (\<lambda>_. None), ipdb = NoIpdb\<rparr>"

definition foreign_lock_world :: world where
  \<comment> \<open>the lock file names process 1, which is alive and not the caller's to signal\<close>
  "foreign_lock_world =
     fresh_world\<lparr>fs := (fs fresh_world)(''_build/parts/part.stl.lock'' \<mapsto>
                     \<lparr>content = ''1'', st_atime = 300, st_mtime = 300\<rparr>),
                 kill0 := (kill0 fresh_world)(1 := EPERM)\<rparr>"

definition part_job :: job where
  \<comment> \<open>the pending job of the part, as raised in \<open>fresh_world\<close>\<close>
  "part_job = \<lparr>job_proc = 4243, job_stl_file = ''_build/parts/part.stl'', job_mtime = 100,
      job_lock_file = ''_build/parts/part.stl.lock''\<rparr>"

definition part_hooks :: "(string, string, string) hooks" where
  \<comment> \<open>a leaf class: a cube, written out as text\<close>
  "part_hooks =
     \<lparr>render = (\<lambda>(d, w). (Inr ''cube'', d, w)),
      validate = (\<lambda>r (d, w). (Inr (), d, w)),
      as_scad = (\<lambda>r (d, w). (Inr (r @ ''()''), d, w)),
      scad_render = (\<lambda>m. case m of None \<Rightarrow> Inl TypeError | Some x \<Rightarrow> Inr (x @ '';'')),
      import_stl = (\<lambda>p. ''import('' @ p @ '')''),
      op_scad = (\<lambda>operation m.
                   case m of None \<Rightarrow> Inl TypeError | Some x \<Rightarrow> Inr (operation @ '' '' @ x)),
      relpath = (\<lambda>p start. if p = start then ''.'' else p)\<rparr>"



definition built_world :: world where
  \<comment> \<open>the binary of the part is there, stamped with the time of the source\<close>
  "built_world =
     fresh_world\<lparr>fs := (fs fresh_world)(''_build/parts/part.stl'' \<mapsto>
                     \<lparr>content = ''solid'', st_atime = 400, st_mtime = 100\<rparr>)\<rparr>"

definition touched_world :: world where
  \<comment> \<open>the binary of the part was touched after it was stamped\<close>
  "touched_world =
     fresh_world\<lparr>fs := (fs fresh_world)(''_build/parts/part.stl'' \<mapsto>
                     \<lparr>content = ''solid'', st_atime = 400, st_mtime = 101\<rparr>)\<rparr>"

definition locked_down_world :: world where
  \<comment> \<open>the working directory is not writable; whoever sits at the debugger continues\<close>
  "locked_down_world =
     fresh_world\<lparr>mkdir_refused :=
                   (\<lambda>p. if p = ''_build'' then Some PermissionError
                        else if p = ''_build/parts'' then Some FileNotFoundError
                        else None),
                 ipdb := Continue\<rparr>"


section \<open>Staleness\<close>

lemma fold_max_Max: "fold max ts (t::int) = Max (set (t # ts))"
proof (induction ts arbitrary: t)
  case Nil
  show ?case by simp
next
  case (Cons a ts)
  have "fold max (a # ts) t = Max (set (max a t # ts))"
    using Cons.IH [of "max a t"] by simp
  also have "\<dots> = Max (set (t # a # ts))"
    by (cases ts) (simp_all add: max.commute max.left_commute max.assoc)
  finally show ?case .
qed

lemma getmtimes_eq:
  "getmtimes w ps =
     (if list_all (\<lambda>p. fs w p \<noteq> None) ps
      then Inr (map (\<lambda>p. st_mtime (the (fs w p))) ps)
      else Inl FileNotFoundError)"
  by (induction ps) (auto simp: getmtime_def split: option.splits)

lemma getmtimes_Inr:
  "getmtimes w ps = Inr ts \<longleftrightarrow>
     list_all (\<lambda>p. fs w p \<noteq> None) ps \<and> ts = map (\<lambda>p. st_mtime (the (fs w p))) ps"
  by (auto simp: getmtimes_eq)

lemma mtime_logical_time:
  "mtime w d = Inr t \<longleftrightarrow> logical_time w (files d) = Some t"
proof (cases "getmtimes w (files d)")
  case (Inl e)
  then have "\<not> list_all (\<lambda>p. fs w p \<noteq> None) (files d)"
    using getmtimes_Inr [of w "files d"] by auto
  with Inl show ?thesis by (simp add: mtime_def logical_time_def)
next
  case (Inr ts)
  then have all: "list_all (\<lambda>p. fs w p \<noteq> None) (files d)"
    and ts: "ts = map (\<lambda>p. st_mtime (the (fs w p))) (files d)"
    using getmtimes_Inr [of w "files d" ts] by auto
  show ?thesis
  proof (cases "files d")
    case Nil
    with Inr ts show ?thesis by (simp add: mtime_def logical_time_def py_max_def)
  next
    case (Cons p ps)
    with ts obtain t0 ts0 where ts0: "ts = t0 # ts0" by auto
    have "mtime w d = Inr (Max (set ts))"
      using Inr ts0 by (simp add: mtime_def py_max_def fold_max_Max)
    moreover have "logical_time w (files d) = Some (Max (set ts))"
      using all Cons ts by (simp add: logical_time_def)
    ultimately show ?thesis by auto
  qed
qed

text \<open>
  C1. The up-to-date check answers true exactly when the path exists and its stored
  modification time equals the logical time of the node, the maximum last-modification
  time over its contributing files; a stored time that differs from the logical time,
  greater or smaller, gives false.
\<close>

text \<open>
  C1. The up-to-date check answers true exactly when the path exists and its stored
  modification time equals the logical time of the node, which is the maximum
  last-modification time over its contributing files; a stored time that differs from the
  logical time, greater or smaller, gives false.
\<close>

theorem up_to_date_iff_exact_stamp:
  "(up_to_date w d path = Inr True \<longleftrightarrow>
      (\<exists>e. fs w path = Some e \<and> logical_time w (files d) = Some (st_mtime e))) \<and>
   (\<forall>e t. fs w path = Some e \<and> logical_time w (files d) = Some t \<and> st_mtime e \<noteq> t
      \<longrightarrow> up_to_date w d path = Inr False)"
proof -
  have eq: "\<And>t. (mtime w d = Inr t) = (logical_time w (files d) = Some t)"
    by (rule mtime_logical_time)
  show ?thesis
  proof (cases "fs w path")
    case None
    then show ?thesis by (simp add: up_to_date_def path_exists_def)
  next
    case (Some e)
    show ?thesis
    proof (cases "mtime w d")
      case (Inl x)
      then have "logical_time w (files d) = None"
        using eq by (cases "logical_time w (files d)") auto
      with Some Inl show ?thesis
        by (simp add: up_to_date_def path_exists_def getmtime_def)
    next
      case (Inr t)
      then have "logical_time w (files d) = Some t" using eq by simp
      with Some Inr show ?thesis
        by (auto simp: up_to_date_def path_exists_def getmtime_def)
    qed
  qed
qed

section \<open>Integers as text: reading back what was written\<close>

lemma of_char_digit_char: "k < 10 \<Longrightarrow> (of_char (digit_char k) :: nat) = 48 + k"
  by (simp add: digit_char_def)

lemma is_digit_digit_char: "k < 10 \<Longrightarrow> is_digit (digit_char k)"
  by (simp add: is_digit_def of_char_digit_char)

lemma digit_val_digit_char: "k < 10 \<Longrightarrow> digit_val (digit_char k) = k"
  by (simp add: digit_val_def of_char_digit_char)

lemma is_digit_not_special:
  "is_digit c \<Longrightarrow> \<not> is_space c \<and> c \<noteq> CHR ''-'' \<and> c \<noteq> CHR ''+'' \<and> c \<noteq> CHR ''_''"
  by (auto simp: is_digit_def is_space_def)

lemma parse_digits_all:
  "list_all is_digit ds \<Longrightarrow>
     parse_digits acc ds = Some (foldl (\<lambda>a c. 10 * a + digit_val c) acc ds)"
  by (induction ds arbitrary: acc) simp_all

lemma str_nat_digits: "list_all is_digit (str_nat n) \<and> str_nat n \<noteq> []"
proof (induction n rule: str_nat.induct)
  case (1 n)
  show ?case
  proof (cases "n < 10")
    case True
    then show ?thesis by (simp add: str_nat.simps [of n] is_digit_digit_char)
  next
    case False
    with 1 show ?thesis by (simp add: str_nat.simps [of n] is_digit_digit_char)
  qed
qed

lemma str_nat_value: "foldl (\<lambda>a c. 10 * a + digit_val c) 0 (str_nat n) = n"
proof (induction n rule: str_nat.induct)
  case (1 n)
  show ?case
  proof (cases "n < 10")
    case True
    then show ?thesis by (simp add: str_nat.simps [of n] digit_val_digit_char)
  next
    case False
    with 1 show ?thesis by (simp add: str_nat.simps [of n] digit_val_digit_char)
  qed
qed

lemma parse_unsigned_str_nat: "parse_unsigned (str_nat n) = Some n"
proof -
  obtain c cs where cs: "str_nat n = c # cs"
    using str_nat_digits [of n] by (cases "str_nat n") auto
  have dig: "is_digit c" "list_all is_digit cs"
    using str_nat_digits [of n] cs by simp_all
  have "foldl (\<lambda>a c. 10 * a + digit_val c) (digit_val c) cs = n"
    using str_nat_value [of n] cs by simp
  then show ?thesis
    using dig cs by (simp add: parse_unsigned_def parse_digits_all)
qed

lemma strip_no_space:
  assumes "s \<noteq> []" "\<not> is_space (hd s)" "\<not> is_space (last s)"
  shows "strip s = s"
proof -
  have 1: "dropWhile is_space s = s"
    using assms by (cases s) simp_all
  have 2: "dropWhile is_space (rev s) = rev s"
    using assms by (cases "rev s") (simp_all add: last_rev [symmetric] hd_rev)
  show ?thesis by (simp add: strip_def 1 2)
qed

lemma list_all_last: "list_all P xs \<Longrightarrow> xs \<noteq> [] \<Longrightarrow> P (last xs)"
  by (induction xs) (auto split: if_splits)

lemma py_int_digits:
  assumes "list_all is_digit ds" "ds \<noteq> []"
  shows "py_int ds = map_option int (parse_unsigned ds)"
    and "py_int (CHR ''-'' # ds) = map_option (\<lambda>n. - int n) (parse_unsigned ds)"
proof -
  obtain c cs where cs: "ds = c # cs" using assms by (cases ds) auto
  have dc: "is_digit c" using assms cs by simp
  have dl: "is_digit (last ds)" using assms by (simp add: list_all_last)
  have 1: "strip ds = ds"
    using dl dc cs is_digit_not_special [of "last ds"] is_digit_not_special [of c]
    by (intro strip_no_space) simp_all
  have 2: "strip (CHR ''-'' # ds) = CHR ''-'' # ds"
    using dl cs is_digit_not_special [of "last ds"]
    by (intro strip_no_space) (simp_all add: is_space_def)
  show "py_int ds = map_option int (parse_unsigned ds)"
    using dc is_digit_not_special [of c] 1 by (simp add: py_int_def cs)
  show "py_int (CHR ''-'' # ds) = map_option (\<lambda>n. - int n) (parse_unsigned ds)"
    by (simp add: py_int_def 2)
qed

lemma py_int_str_int: "py_int (str_int i) = Some i"
proof (cases "i < 0")
  case True
  then show ?thesis
    using py_int_digits(2) [of "str_nat (nat (- i))"] str_nat_digits [of "nat (- i)"]
    by (simp add: str_int_def parse_unsigned_str_nat)
next
  case False
  then show ?thesis
    using py_int_digits(1) [of "str_nat (nat i)"] str_nat_digits [of "nat i"]
    by (simp add: str_int_def parse_unsigned_str_nat)
qed

lemma str_int_inj: "str_int a = str_int b \<Longrightarrow> a = b"
proof -
  assume "str_int a = str_int b"
  then have "py_int (str_int a) = py_int (str_int b)" by (rule arg_cong)
  then show "a = b" by (simp only: py_int_str_int option.inject)
qed

section \<open>The render lock and binary generation\<close>

lemma artifact_paths_distinct:
  "stl_file d \<noteq> lock_file d" "scad_file d \<noteq> stl_file d" "scad_file d \<noteq> lock_file d"
  by (simp_all add: stl_file_def lock_file_def scad_file_def)

lemma stl_generation_locked_cases:
  "stl_generation_locked w d =
     (case lock_owner w d of
        None \<Rightarrow> Inr False
      | Some pid \<Rightarrow>
          if \<not> pid_range pid then Inl OverflowError
          else (case kill0 w pid of
                  Delivered \<Rightarrow> Inr True
                | ESRCH \<Rightarrow> Inr False
                | EPERM \<Rightarrow> Inl PermissionError))"
  by (auto simp: stl_generation_locked_def lock_owner_def os_kill_def pid_range_def
           split: option.splits kill_answer.splits)


lemma locked_False_iff: "stl_generation_locked w d = Inr False \<longleftrightarrow> lock_free w d"
  by (auto simp: stl_generation_locked_cases lock_free_def
           split: option.splits kill_answer.splits)




lemma remove_tolerant_eq: "remove_tolerant w p = (Inr (), w\<lparr>fs := (fs w)(p := None)\<rparr>)"
proof (cases "fs w p")
  case None
  then have "(fs w)(p := None) = fs w" by (simp add: fun_upd_idem)
  with None show ?thesis by (simp add: remove_tolerant_def remove_def)
next
  case (Some e)
  then show ?thesis by (simp add: remove_tolerant_def remove_def)
qed


lemma generate_stl_launch:
  assumes "up_to_date w d (stl_file d) = Inr False" "rigid d"
    "stl_generation_locked w d = Inr False"
  shows "generate_stl d w =
     (case mtime (launched d w) d of
        Inl e \<Rightarrow> (Inl e, launched d w)
      | Inr t \<Rightarrow> (Inl (StlRenderStart \<lparr>job_proc = next_pid w, job_stl_file = stl_file d,
                         job_mtime = t, job_lock_file = lock_file d\<rparr>), launched d w))"
  using assms artifact_paths_distinct(1) [of d]
  by (simp add: generate_stl_def remove_tolerant_eq Popen_def open_w_def fwrite_def
        launched_def Let_def split: sum.splits)



lemma stl_generation_locked_no_signal: "stl_generation_locked w d \<noteq> Inl (StlRenderStart j)"
  by (simp add: stl_generation_locked_cases split: option.splits kill_answer.splits)


lemmas part_simps =
  part_def fresh_world_def foreign_lock_world_def stl_file_def lock_file_def scad_file_def
  logical_time_def binary_current_def lock_free_def lock_held_def lock_live_def lock_owner_def
  live_def pid_range_def

lemmas py_int_simps =
  py_int_def strip_def is_space_def parse_unsigned_def is_digit_def digit_val_def






lemma mtime_errors: "mtime w d = Inl e \<Longrightarrow> e = FileNotFoundError \<or> e = ValueError"
  by (auto simp: mtime_def getmtimes_eq py_max_def split: if_splits list.splits)

lemma up_to_date_errors:
  "up_to_date w d p = Inl e \<Longrightarrow> e = FileNotFoundError \<or> e = ValueError"
  using mtime_errors [of w d]
  by (auto simp: up_to_date_def getmtime_def split: if_splits option.splits sum.splits)

lemma generate_stl_signal_iff:
  "generate_stl d w = (Inl (StlRenderStart j), w') \<longleftrightarrow>
     up_to_date w d (stl_file d) = Inr False \<and> rigid d \<and>
     stl_generation_locked w d = Inr False \<and> w' = launched d w \<and>
     (\<exists>t. mtime (launched d w) d = Inr t \<and>
          j = \<lparr>job_proc = next_pid w, job_stl_file = stl_file d, job_mtime = t,
               job_lock_file = lock_file d\<rparr>)"
proof (cases "up_to_date w d (stl_file d) = Inr False \<and> rigid d \<and>
    stl_generation_locked w d = Inr False")
  case True
  then show ?thesis
    using generate_stl_launch [of w d] mtime_errors [of "launched d w" d]
    by (auto split: sum.splits)
next
  case False
  have "generate_stl d w \<noteq> (Inl (StlRenderStart j), w')"
  proof (cases "up_to_date w d (stl_file d)")
    case (Inl e)
    then show ?thesis using up_to_date_errors [of w d "stl_file d" e]
      by (auto simp: generate_stl_def)
  next
    case (Inr b)
    show ?thesis
    proof (cases "b \<or> \<not> rigid d")
      case True
      with Inr show ?thesis by (auto simp: generate_stl_def split: bool.splits)
    next
      case nb: False
      with Inr False have nf: "stl_generation_locked w d \<noteq> Inr False" by auto
      show ?thesis
      proof (cases "stl_generation_locked w d")
        case (Inl e)
        with Inr nb stl_generation_locked_no_signal [of w d j] show ?thesis
          by (auto simp: generate_stl_def)
      next
        case (Inr c)
        with nf have "c" by auto
        with Inr \<open>up_to_date w d (stl_file d) = Inr b\<close> nb show ?thesis
          by (auto simp: generate_stl_def)
      qed
    qed
  qed
  with False show ?thesis by auto
qed

text \<open>
  C10. When the lock file holds a valid identifier of a live process that the caller may
  not signal, the check raises \<^verbatim>\<open>PermissionError\<close>, and so does \<^verbatim>\<open>generate_stl\<close>
  whenever it reaches the check (the binary is not up to date and the node is rigid),
  leaving everything as it was. Every error of the probe other than the process not being
  found leaves the check. The check answers "not locked" only for a missing lock file,
  for content that is not an integer, and for the identifier of no process.
\<close>

theorem probe_permission_error_propagates:
  "(lock_owner w d = Some pid \<and> pid_range pid \<and> kill0 w pid = EPERM \<longrightarrow>
      stl_generation_locked w d = Inl PermissionError \<and>
      (up_to_date w d (stl_file d) = Inr False \<and> rigid d \<longrightarrow>
         generate_stl d w = (Inl PermissionError, w))) \<and>
   (\<forall>x. lock_owner w d = Some pid \<and> os_kill w pid = Inl x \<and> x \<noteq> ProcessLookupError \<longrightarrow>
      stl_generation_locked w d = Inl x) \<and>
   (stl_generation_locked w d = Inr False \<longleftrightarrow>
      fs w (lock_file d) = None \<or>
      (\<exists>e. fs w (lock_file d) = Some e \<and> py_int (content e) = None) \<or>
      (\<exists>p. lock_owner w d = Some p \<and> pid_range p \<and> kill0 w p = ESRCH))"
proof -
  have a: "stl_generation_locked w d = Inl PermissionError"
    if "lock_owner w d = Some pid" "pid_range pid" "kill0 w pid = EPERM"
    using that by (simp add: stl_generation_locked_cases)
  have b: "generate_stl d w = (Inl PermissionError, w)"
    if "stl_generation_locked w d = Inl PermissionError"
      "up_to_date w d (stl_file d) = Inr False" "rigid d"
    using that by (simp add: generate_stl_def)
  have c: "stl_generation_locked w d = Inl x"
    if "lock_owner w d = Some pid" "os_kill w pid = Inl x" "x \<noteq> ProcessLookupError" for x
    using that
    by (cases x) (auto simp: stl_generation_locked_def lock_owner_def split: option.splits)
  have d: "stl_generation_locked w d = Inr False \<longleftrightarrow>
      fs w (lock_file d) = None \<or>
      (\<exists>e. fs w (lock_file d) = Some e \<and> py_int (content e) = None) \<or>
      (\<exists>p. lock_owner w d = Some p \<and> pid_range p \<and> kill0 w p = ESRCH)"
    by (auto simp: locked_False_iff lock_free_def lock_owner_def split: option.splits)
  show ?thesis using a b c d by blast
qed

text \<open>
  C10 on the part: process 1 holds the lock and cannot be signalled.
\<close>

theorem probe_permission_error_witness:
  "stl_generation_locked foreign_lock_world part = Inl PermissionError \<and>
   generate_stl part foreign_lock_world = (Inl PermissionError, foreign_lock_world) \<and>
   stl_generation_locked fresh_world part = Inr False"
proof -
  have 1: "lock_owner foreign_lock_world part = Some 1 \<and> pid_range 1 \<and>
      kill0 foreign_lock_world 1 = EPERM"
    by (simp add: part_simps py_int_simps)
  have 2: "up_to_date foreign_lock_world part (stl_file part) = Inr False \<and> rigid part"
    by (simp add: part_simps up_to_date_def path_exists_def)
  have 3: "fs fresh_world (lock_file part) = None" by (simp add: part_simps)
  show ?thesis
    using probe_permission_error_propagates [of foreign_lock_world part 1]
      probe_permission_error_propagates [of fresh_world part 1] 1 2 3
    by simp
qed

text \<open>
  C6, as the code has it. When \<^verbatim>\<open>generate_stl\<close> raises the pending job, the lock file holds
  the decimal identifier of the renderer it has just launched: that of the job's handle,
  the last process spawned, alive, and read back as such by \<^verbatim>\<open>int\<close>. It is not the
  identifier of the invoking process, whenever the two differ.
\<close>

theorem lock_file_names_renderer:
  "generate_stl d w = (Inl (StlRenderStart j), w') \<Longrightarrow>
     job_proc j = next_pid w \<and>
     (\<exists>e. fs w' (lock_file d) = Some e \<and> content e = str_int (job_proc j)) \<and>
     lock_owner w' d = Some (job_proc j) \<and>
     spawned w' = spawned w @ [(job_proc j, [''openscad'', scad_file d, ''-o'', stl_file d])] \<and>
     kill0 w' (job_proc j) = Delivered \<and>
     (job_proc j \<noteq> self_pid w \<longrightarrow>
        (\<forall>e. fs w' (lock_file d) = Some e \<longrightarrow> content e \<noteq> str_int (self_pid w)))"
proof -
  assume "generate_stl d w = (Inl (StlRenderStart j), w')"
  then have w': "w' = launched d w" and j: "job_proc j = next_pid w"
    by (auto simp: generate_stl_signal_iff)
  have c: "fs w' (lock_file d) = Some
      \<lparr>content = str_int (next_pid w),
       st_atime = (case fs w (lock_file d) of None \<Rightarrow> clock w | Some e \<Rightarrow> st_atime e),
       st_mtime = clock w\<rparr>"
    by (simp add: w' launched_def)
  have o: "lock_owner w' d = Some (next_pid w)"
    by (simp add: lock_owner_def c py_int_str_int)
  have s: "spawned w' =
      spawned w @ [(next_pid w, [''openscad'', scad_file d, ''-o'', stl_file d])]"
    and k: "kill0 w' (next_pid w) = Delivered"
    by (simp_all add: w' launched_def)
  have n: "content e \<noteq> str_int (self_pid w)"
    if "next_pid w \<noteq> self_pid w" "fs w' (lock_file d) = Some e" for e
    using that c str_int_inj [of "next_pid w" "self_pid w"] by auto
  show ?thesis using j c o s k n by auto
qed

lemma generate_stl_part_fresh:
  "generate_stl part fresh_world = (Inl (StlRenderStart part_job), launched part fresh_world)"
proof -
  have "up_to_date fresh_world part (stl_file part) = Inr False \<and> rigid part \<and>
      stl_generation_locked fresh_world part = Inr False"
    by (simp add: part_simps up_to_date_def path_exists_def stl_generation_locked_def)
  moreover have "mtime (launched part fresh_world) part = Inr 100"
    by (simp add: mtime_def getmtime_def py_max_def launched_def part_simps)
  ultimately show ?thesis
    using generate_stl_launch [of fresh_world part] by (simp add: part_job_def part_simps)
qed

lemma digit_char_simps:
  "digit_char 0 = CHR ''0''" "digit_char 1 = CHR ''1''" "digit_char 2 = CHR ''2''"
  "digit_char 3 = CHR ''3''" "digit_char 4 = CHR ''4''" "digit_char 5 = CHR ''5''"
  "digit_char 6 = CHR ''6''" "digit_char 7 = CHR ''7''" "digit_char 8 = CHR ''8''"
  "digit_char 9 = CHR ''9''"
  by (simp_all add: digit_char_def char_of_def bit_Suc_0_iff)

lemma str_int_4243: "str_int 4243 = ''4243''" "str_int 4242 = ''4242''"
  by (simp_all add: str_int_def str_nat.simps digit_char_simps)

text \<open>
  C6 on the part: the process that builds is 4242, the lock file names the renderer,
  4243.
\<close>

theorem lock_file_names_renderer_witness:
  "lock_owner (launched part fresh_world) part = Some 4243 \<and>
   self_pid fresh_world = 4242"
  using lock_file_names_renderer [OF generate_stl_part_fresh]
  by (simp add: part_job_def fresh_world_def)

text \<open>
  C6 as it is written fails on the part: the lock file holds 4243, the identifier of
  the renderer, and the invoking process is 4242.
\<close>

theorem lock_file_not_own_pid:
  "map_option content (fs (snd (generate_stl part fresh_world)) (lock_file part)) = Some ''4243'' \<and>
   str_int (self_pid fresh_world) = ''4242''"
proof -
  have "snd (generate_stl part fresh_world) = launched part fresh_world"
    by (simp add: generate_stl_part_fresh)
  moreover have "next_pid fresh_world = 4243" "self_pid fresh_world = 4242"
    by (simp_all add: fresh_world_def)
  ultimately show ?thesis
    by (simp add: launched_def str_int_4243)
qed

section \<open>Finishing a render job\<close>

lemma finish_present:
  assumes "fs w (job_stl_file j) = Some e"
  shows "finish j w =
     (Inr (), w\<lparr>fs := ((fs w)(job_stl_file j \<mapsto>
                     e\<lparr>st_atime := clock w, st_mtime := job_mtime j\<rparr>))
                   (job_lock_file j := None)\<rparr>)"
proof -
  let ?w1 = "w\<lparr>fs := (fs w)(job_stl_file j \<mapsto> e\<lparr>st_atime := clock w, st_mtime := job_mtime j\<rparr>)\<rparr>"
  have u: "utime w (job_stl_file j) (clock w, job_mtime j) = (Inr (), ?w1)"
    using assms by (simp add: utime_def)
  show ?thesis
  proof (cases "fs ?w1 (job_lock_file j)")
    case None
    then have "(fs ?w1)(job_lock_file j := None) = fs ?w1" by (simp add: fun_upd_idem)
    then have "?w1\<lparr>fs := (fs ?w1)(job_lock_file j := None)\<rparr> = ?w1" by simp
    with None u show ?thesis by (simp add: finish_def path_exists_def)
  next
    case (Some l)
    with u show ?thesis by (simp add: finish_def path_exists_def remove_def)
  qed
qed

lemma finish_absent:
  "fs w (job_stl_file j) = None \<Longrightarrow> finish j w = (Inl FileNotFoundError, w)"
  by (simp add: finish_def utime_def)

text \<open>
  C7, as the code has it. \<^verbatim>\<open>wait\<close> is \<^verbatim>\<open>finish\<close> after the renderer has ended, and its
  exit status changes nothing. When the binary file exists, \<^verbatim>\<open>finish\<close> sets its
  modification time to the logical time of the job and then removes the lock file, which
  may be absent already. When the binary file does not exist, the stamping raises
  \<^verbatim>\<open>FileNotFoundError\<close> and nothing is changed: the lock file is left where it is.
\<close>

theorem finish_stamps_and_releases:
  "(\<forall>s. wait j (r\<lparr>exit_status := s\<rparr>) w = wait j r w) \<and>
   wait j r w = finish j (snd (proc_wait j r w)) \<and>
   (\<forall>e. fs w (job_stl_file j) = Some e \<longrightarrow>
      finish j w =
        (Inr (), w\<lparr>fs := ((fs w)(job_stl_file j \<mapsto>
                        e\<lparr>st_atime := clock w, st_mtime := job_mtime j\<rparr>))
                      (job_lock_file j := None)\<rparr>)) \<and>
   (\<forall>w'. finish j w = (Inr (), w') \<longrightarrow>
      fs w' (job_lock_file j) = None \<and>
      (job_stl_file j \<noteq> job_lock_file j \<longrightarrow>
         getmtime w' (job_stl_file j) = Inr (job_mtime j))) \<and>
   (fs w (job_stl_file j) = None \<longrightarrow> finish j w = (Inl FileNotFoundError, w))"
proof -
  have a: "wait j (r\<lparr>exit_status := s\<rparr>) w = wait j r w" for s
    by (simp add: wait_def proc_wait_def)
  have b: "wait j r w = finish j (snd (proc_wait j r w))"
    by (simp add: wait_def split_def)
  have c: "fs w' (job_lock_file j) = None \<and>
      (job_stl_file j \<noteq> job_lock_file j \<longrightarrow> getmtime w' (job_stl_file j) = Inr (job_mtime j))"
    if "finish j w = (Inr (), w')" for w'
  proof (cases "fs w (job_stl_file j)")
    case None
    with that show ?thesis by (simp add: finish_absent)
  next
    case (Some e)
    with that show ?thesis by (auto simp: finish_present getmtime_def)
  qed
  show ?thesis using a b c finish_present [of w j] finish_absent [of w j] by blast
qed

text \<open>
  C7 on the part: the renderer exits with status 1 and leaves a binary; the binary is
  stamped 100 and the lock file is gone.
\<close>

theorem finish_stamps_and_releases_witness:
  "fst (wait part_job \<lparr>exit_status = 1, written = Some ''solid''\<rparr> (launched part fresh_world)) =
     Inr () \<and>
   getmtime (snd (wait part_job \<lparr>exit_status = 1, written = Some ''solid''\<rparr>
                    (launched part fresh_world))) ''_build/parts/part.stl'' = Inr 100 \<and>
   fs (snd (wait part_job \<lparr>exit_status = 1, written = Some ''solid''\<rparr>
              (launched part fresh_world))) ''_build/parts/part.stl.lock'' = None"
proof -
  let ?r = "\<lparr>exit_status = 1, written = Some ''solid''\<rparr>"
  let ?w = "snd (proc_wait part_job ?r (launched part fresh_world))"
  have e: "fs ?w (job_stl_file part_job) =
      Some \<lparr>content = ''solid'', st_atime = 500, st_mtime = 500\<rparr>"
    by (simp add: proc_wait_def part_job_def open_w_def fwrite_def launched_def part_simps)
  have p: "job_stl_file part_job = ''_build/parts/part.stl''"
    "job_lock_file part_job = ''_build/parts/part.stl.lock''" "job_mtime part_job = 100"
    by (simp_all add: part_job_def)
  have w: "wait part_job ?r (launched part fresh_world) = finish part_job ?w"
    using finish_stamps_and_releases [of part_job ?r "launched part fresh_world"] by blast
  obtain w' where f: "finish part_job ?w = (Inr (), w')"
    using finish_stamps_and_releases [of part_job ?r ?w] e by blast
  then have "fs w' (job_lock_file part_job) = None \<and>
      (job_stl_file part_job \<noteq> job_lock_file part_job \<longrightarrow>
         getmtime w' (job_stl_file part_job) = Inr (job_mtime part_job))"
    using finish_stamps_and_releases [of part_job ?r ?w] by blast
  then show ?thesis by (simp add: w f p)
qed

text \<open>
  C7 as it is written fails when the renderer exits with status 1 and leaves no binary:
  \<^verbatim>\<open>wait\<close> raises \<^verbatim>\<open>FileNotFoundError\<close> and the lock file stays.
\<close>

theorem finish_without_binary_raises:
  "fst (wait part_job \<lparr>exit_status = 1, written = None\<rparr> (launched part fresh_world)) =
     Inl FileNotFoundError \<and>
   fs (snd (wait part_job \<lparr>exit_status = 1, written = None\<rparr> (launched part fresh_world)))
      ''_build/parts/part.stl.lock'' \<noteq> None"
  by (simp add: wait_def proc_wait_def finish_def utime_def part_job_def launched_def part_simps)

section \<open>The description file carries the logical time\<close>

lemma logical_time_cong:
  "\<forall>p\<in>set ps. fs w' p = fs w p \<Longrightarrow> logical_time w' ps = logical_time w ps"
proof -
  assume a: "\<forall>p\<in>set ps. fs w' p = fs w p"
  then have "list_all (\<lambda>p. fs w' p \<noteq> None) ps = list_all (\<lambda>p. fs w p \<noteq> None) ps"
    by (simp add: list_all_iff)
  moreover have "map (\<lambda>p. st_mtime (the (fs w' p))) ps = map (\<lambda>p. st_mtime (the (fs w p))) ps"
    using a by simp
  ultimately show ?thesis by (simp add: logical_time_def)
qed

lemma logical_time_restamp:
  assumes lt: "logical_time w ps = Some t" and e: "fs w q = Some e"
  shows "logical_time (w\<lparr>fs := (fs w)(q \<mapsto> e\<lparr>st_atime := a, st_mtime := t\<rparr>)\<rparr>) ps = Some t"
proof (cases "q \<in> set ps")
  case False
  then have "logical_time (w\<lparr>fs := (fs w)(q \<mapsto> e\<lparr>st_atime := a, st_mtime := t\<rparr>)\<rparr>) ps =
      logical_time w ps"
    by (intro logical_time_cong) auto
  with lt show ?thesis by simp
next
  case True
  let ?w' = "w\<lparr>fs := (fs w)(q \<mapsto> e\<lparr>st_atime := a, st_mtime := t\<rparr>)\<rparr>"
  let ?m = "\<lambda>p. st_mtime (the (fs w p))"
  let ?m' = "\<lambda>p. st_mtime (the (fs ?w' p))"
  from lt have ne: "ps \<noteq> []" and ex: "list_all (\<lambda>p. fs w p \<noteq> None) ps"
    and t: "t = Max (set (map ?m ps))"
    by (auto simp: logical_time_def split: if_splits)
  have ex': "list_all (\<lambda>p. fs ?w' p \<noteq> None) ps"
    using ex by (auto simp: list_all_iff)
  have le: "?m p \<le> t" if "p \<in> set ps" for p
    using that t by simp
  have "Max (set (map ?m' ps)) = t"
  proof (rule Max_eqI)
    show "finite (set (map ?m' ps))" by simp
    show "y \<le> t" if "y \<in> set (map ?m' ps)" for y
      using that le by auto
    show "t \<in> set (map ?m' ps)"
      using True by (auto simp: image_iff intro!: bexI [of _ q])
  qed
  with ne ex' show ?thesis by (simp add: logical_time_def)
qed

lemma generate_scad_eq:
  "generate_scad H d w =
     (case scad_code H d of
        Inl e \<Rightarrow> (Inl e, open_w w (scad_file d))
      | Inr code \<Rightarrow>
          (case mtime (fwrite (open_w w (scad_file d)) (scad_file d) code) d of
             Inl e \<Rightarrow> (Inl e, fwrite (open_w w (scad_file d)) (scad_file d) code)
           | Inr t \<Rightarrow>
               (Inr (), (fwrite (open_w w (scad_file d)) (scad_file d) code)
                  \<lparr>fs := (fs (fwrite (open_w w (scad_file d)) (scad_file d) code))
                     (scad_file d \<mapsto>
                        \<lparr>content = code, st_atime = clock w, st_mtime = t\<rparr>)\<rparr>)))"
  by (simp add: generate_scad_def Let_def utime_def open_w_def fwrite_def
        split: sum.splits)

lemma written_scad:
  "fs (fwrite (open_w w p) p code) p =
     Some \<lparr>content = code,
           st_atime = (case fs w p of None \<Rightarrow> clock w | Some e \<Rightarrow> st_atime e),
           st_mtime = clock w\<rparr>"
  "q \<noteq> p \<Longrightarrow> fs (fwrite (open_w w p) p code) q = fs w q"
  by (simp_all add: open_w_def fwrite_def)

lemma written_scad_others:
  "p \<notin> set ps \<Longrightarrow> \<forall>q\<in>set ps. fs (fwrite (open_w w p) p code) q = fs w q"
  by (auto simp: open_w_def fwrite_def)

text \<open>
  C4. When \<^verbatim>\<open>generate_scad\<close> returns, the description file holds the rendered text and
  its modification time is the logical time of the node, computed after the write; when
  the description file is not one of the contributing files, that is the logical time
  before the call too. In that case the call does return whenever the text renders and the
  contributing files exist. In particular, for a node whose only source was last modified at
  \<open>T\<close>, the description file is stamped \<open>T\<close>, whatever the clock says.
\<close>

theorem generate_scad_stamp:
  "(\<forall>w'. generate_scad H d w = (Inr (), w') \<longrightarrow>
      (\<exists>e. fs w' (scad_file d) = Some e \<and> scad_code H d = Inr (content e) \<and>
           logical_time w' (files d) = Some (st_mtime e) \<and>
           (scad_file d \<notin> set (files d) \<longrightarrow> logical_time w (files d) = Some (st_mtime e)))) \<and>
   (\<forall>code t. scad_code H d = Inr code \<and> logical_time w (files d) = Some t \<and>
        scad_file d \<notin> set (files d) \<longrightarrow>
      (\<exists>w'. generate_scad H d w = (Inr (), w') \<and> getmtime w' (scad_file d) = Inr t)) \<and>
   (\<forall>code s e. scad_code H d = Inr code \<and> files d = [s] \<and> s \<noteq> scad_file d \<and>
        fs w s = Some e \<longrightarrow>
      (\<exists>w'. generate_scad H d w = (Inr (), w') \<and>
            getmtime w' (scad_file d) = Inr (st_mtime e)))"
proof -
  let ?p = "scad_file d"
  have total: "\<exists>w'. generate_scad H d w = (Inr (), w') \<and> getmtime w' ?p = Inr t"
    if c: "scad_code H d = Inr code" and lt: "logical_time w (files d) = Some t"
      and nin: "?p \<notin> set (files d)" for code t
  proof -
    have "logical_time (fwrite (open_w w ?p) ?p code) (files d) = logical_time w (files d)"
      using nin by (intro logical_time_cong written_scad_others)
    then have "mtime (fwrite (open_w w ?p) ?p code) d = Inr t"
      using lt by (simp add: mtime_logical_time)
    then show ?thesis using c by (simp add: generate_scad_eq getmtime_def)
  qed
  have stamp: "\<exists>e. fs w' ?p = Some e \<and> scad_code H d = Inr (content e) \<and>
           logical_time w' (files d) = Some (st_mtime e) \<and>
           (?p \<notin> set (files d) \<longrightarrow> logical_time w (files d) = Some (st_mtime e))"
    if g: "generate_scad H d w = (Inr (), w')" for w'
  proof -
    from g obtain code where c: "scad_code H d = Inr code"
      by (auto simp: generate_scad_eq split: sum.splits)
    let ?w2 = "fwrite (open_w w ?p) ?p code"
    from g c obtain t where t: "mtime ?w2 d = Inr t"
      by (auto simp: generate_scad_eq split: sum.splits)
    let ?e2 = "\<lparr>content = code,
           st_atime = (case fs w ?p of None \<Rightarrow> clock w | Some e \<Rightarrow> st_atime e),
           st_mtime = clock w\<rparr>"
    have e2: "fs ?w2 ?p = Some ?e2" by (rule written_scad)
    have w': "w' = ?w2\<lparr>fs := (fs ?w2)(?p \<mapsto> ?e2\<lparr>st_atime := clock w, st_mtime := t\<rparr>)\<rparr>"
      using g c t by (simp add: generate_scad_eq)
    have lt2: "logical_time ?w2 (files d) = Some t"
      using t by (simp add: mtime_logical_time)
    have lt': "logical_time w' (files d) = Some t"
      unfolding w' using lt2 e2 by (rule logical_time_restamp)
    have old: "logical_time w (files d) = Some t" if "?p \<notin> set (files d)"
    proof -
      have "logical_time ?w2 (files d) = logical_time w (files d)"
        using that by (intro logical_time_cong written_scad_others)
      with lt2 show ?thesis by simp
    qed
    have "fs w' ?p = Some (?e2\<lparr>st_atime := clock w, st_mtime := t\<rparr>)"
      by (simp add: w')
    with c lt' old show ?thesis by simp
  qed
  have sole: "\<exists>w'. generate_scad H d w = (Inr (), w') \<and> getmtime w' ?p = Inr (st_mtime e)"
    if "scad_code H d = Inr code" "files d = [s]" "s \<noteq> ?p" "fs w s = Some e" for code s e
  proof (rule total)
    show "scad_code H d = Inr code" by fact
    show "logical_time w (files d) = Some (st_mtime e)"
      using that by (simp add: logical_time_def)
    show "?p \<notin> set (files d)" using that by simp
  qed
  show ?thesis using total stamp sole by blast
qed

text \<open>
  C4 on the part: the source was modified at 100, the clock says 500, the description
  file is stamped 100.
\<close>

theorem generate_scad_stamp_witness:
  "clock fresh_world = 500 \<and>
   (\<exists>w'. generate_scad part_hooks (part\<lparr>model := Some ''cube()''\<rparr>) fresh_world = (Inr (), w') \<and>
         getmtime w' ''_build/parts/part.scad'' = Inr 100)"
proof -
  let ?d = "part\<lparr>model := Some ''cube()''\<rparr>"
  have "scad_code part_hooks ?d = Inr ''cube();'' \<and> files ?d = [''parts/part.py''] \<and>
      ''parts/part.py'' \<noteq> scad_file ?d \<and>
      fs fresh_world ''parts/part.py'' =
        Some \<lparr>content = ''source'', st_atime = 7, st_mtime = 100\<rparr>"
    by (simp add: scad_code_def part_hooks_def part_simps)
  then show ?thesis
    using generate_scad_stamp [of part_hooks ?d fresh_world]
    by (simp add: part_simps)
qed

section \<open>Assembly happens once\<close>









section \<open>The order of a trigger\<close>











section \<open>Worked instances\<close>

text \<open>
  C1 on the part: a binary stamped with the time of the source is up to date, one
  that was touched a second later is not.
\<close>

theorem up_to_date_iff_exact_stamp_witness:
  "up_to_date built_world part ''_build/parts/part.stl'' = Inr True \<and>
   up_to_date touched_world part ''_build/parts/part.stl'' = Inr False"
proof -
  have 1: "fs built_world ''_build/parts/part.stl'' =
        Some \<lparr>content = ''solid'', st_atime = 400, st_mtime = 100\<rparr> \<and>
      logical_time built_world (files part) = Some 100"
    by (simp add: built_world_def part_simps)
  have 2: "fs touched_world ''_build/parts/part.stl'' =
        Some \<lparr>content = ''solid'', st_atime = 400, st_mtime = 101\<rparr> \<and>
      logical_time touched_world (files part) = Some 100"
    by (simp add: touched_world_def part_simps)
  show ?thesis
    using up_to_date_iff_exact_stamp [of built_world part "''_build/parts/part.stl''"]
      up_to_date_iff_exact_stamp [of touched_world part "''_build/parts/part.stl''"] 1 2
    by simp
qed






section \<open>The build directories\<close>

lemma build_dirs_loop_errors:
  "build_dirs_loop acc comps w = (Inl e, w') \<Longrightarrow> e = ModuleNotFoundError \<or> e = BdbQuit"
proof (induction acc comps w rule: build_dirs_loop.induct)
  case (1 build_dirs w)
  then show ?case by simp
next
  case (2 build_dirs c path w)
  show ?case
  proof (cases "path_exists w (join_slash (build_dirs @ [c]))")
    case True
    with 2 show ?thesis by simp
  next
    case False
    obtain r w1 where m: "mkdir w (join_slash (build_dirs @ [c])) = (r, w1)"
      by (rule prod.exhaust)
    show ?thesis
    proof (cases r)
      case (Inr u)
      with 2 False m show ?thesis by simp
    next
      case (Inl x)
      with 2 False m show ?thesis by (cases "ipdb w1") simp_all
    qed
  qed
qed

lemma mkdir_keeps:
  "mkdir w p = (r, w') \<Longrightarrow>
     mkdir_refused w' = mkdir_refused w \<and> (path_exists w q \<longrightarrow> path_exists w' q)"
  by (auto simp: mkdir_def path_exists_def split: if_splits option.splits)

lemma build_dirs_loop_keeps:
  "build_dirs_loop acc comps w = (r, w') \<Longrightarrow>
     mkdir_refused w' = mkdir_refused w \<and> (path_exists w q \<longrightarrow> path_exists w' q)"
proof (induction acc comps w rule: build_dirs_loop.induct)
  case (1 build_dirs w)
  then show ?case by simp
next
  case (2 build_dirs c path w)
  show ?case
  proof (cases "path_exists w (join_slash (build_dirs @ [c]))")
    case True
    with 2 show ?thesis by simp
  next
    case False
    obtain r1 w1 where m: "mkdir w (join_slash (build_dirs @ [c])) = (r1, w1)"
      by (rule prod.exhaust)
    note k = mkdir_keeps [OF m, of q]
    show ?thesis
    proof (cases r1)
      case (Inr u)
      with 2 False m k show ?thesis by simp
    next
      case (Inl x)
      with 2 False m k show ?thesis by (cases "ipdb w1") auto
    qed
  qed
qed

lemma build_dirs_loop_creates:
  assumes "\<forall>p. mkdir_refused w p = None"
  shows "\<exists>w'. build_dirs_loop acc comps w = (Inr (), w') \<and>
     (\<forall>k. 0 < k \<and> k \<le> length comps \<longrightarrow> path_exists w' (join_slash (acc @ take k comps)))"
  using assms
proof (induction comps arbitrary: acc w)
  case Nil
  then show ?case by simp
next
  case (Cons c comps)
  let ?p = "join_slash (acc @ [c])"
  obtain w1 where w1: "build_dirs_loop acc (c # comps) w = build_dirs_loop (acc @ [c]) comps w1"
    "path_exists w1 ?p" "\<forall>p. mkdir_refused w1 p = None"
  proof (cases "path_exists w ?p")
    case True
    with Cons.prems that [of w] show ?thesis by simp
  next
    case False
    let ?w1 = "w\<lparr>fs := (fs w)(?p \<mapsto> \<lparr>content = [], st_atime = clock w, st_mtime = clock w\<rparr>)\<rparr>"
    have "mkdir w ?p = (Inr (), ?w1)" using False Cons.prems by (simp add: mkdir_def)
    with False Cons.prems that [of ?w1] show ?thesis by (simp add: path_exists_def)
  qed
  from Cons.IH [OF w1(3), of "acc @ [c]"] obtain w' where
    w': "build_dirs_loop (acc @ [c]) comps w1 = (Inr (), w')"
    "\<forall>k. 0 < k \<and> k \<le> length comps \<longrightarrow> path_exists w' (join_slash ((acc @ [c]) @ take k comps))"
    by blast
  have "path_exists w' (join_slash (acc @ take k (c # comps)))"
    if "0 < k" "k \<le> length (c # comps)" for k
  proof (cases k)
    case 0
    with that show ?thesis by simp
  next
    case (Suc j)
    show ?thesis
    proof (cases j)
      case 0
      with Suc w1(2) build_dirs_loop_keeps [OF w'(1), of ?p] show ?thesis by simp
    next
      case (Suc i)
      with \<open>k = Suc j\<close> that w'(2) show ?thesis by simp
    qed
  qed
  with w1(1) w'(1) show ?case by simp
qed

lemma make_build_dirs_creates:
  assumes "\<forall>p. mkdir_refused w p = None"
  shows "\<exists>w'. make_build_dirs d w = (Inr (), w') \<and>
     (\<forall>k. 0 < k \<and> k \<le> length (split_on CHR ''/'' (build_dir d)) \<longrightarrow>
        path_exists w' (join_slash (take k (split_on CHR ''/'' (build_dir d)))))"
  using build_dirs_loop_creates [OF assms, of "[]" "split_on CHR ''/'' (build_dir d)"]
  by (simp add: make_build_dirs_def)

lemma make_build_dirs_errors:
  "make_build_dirs d w = (Inl e, w') \<Longrightarrow> e = ModuleNotFoundError \<or> e = BdbQuit"
  unfolding make_build_dirs_def by (rule build_dirs_loop_errors)

text \<open>
  C9 in a working directory that is not writable: \<^verbatim>\<open>os.mkdir\<close> raises
  \<^verbatim>\<open>PermissionError\<close>, the bare \<^verbatim>\<open>except\<close> catches it and opens the debugger, and once
  the debugger continues the loop goes on. The constructor returns the node, and the
  build directory does not exist.
\<close>

theorem make_build_dirs_swallows_error:
  "mkdir locked_down_world ''_build'' = (Inl PermissionError, locked_down_world) \<and>
   make_build_dirs part locked_down_world = (Inr (), locked_down_world) \<and>
   init part_hooks ''Part'' ''parts/part.py'' None True [] None locked_down_world =
     (Inr part, locked_down_world) \<and>
   \<not> path_exists locked_down_world ''_build/parts''"
proof -
  have 1: "mkdir locked_down_world ''_build'' = (Inl PermissionError, locked_down_world)"
    and 2: "\<not> path_exists locked_down_world ''_build/parts''"
    by (simp_all add: mkdir_def path_exists_def locked_down_world_def part_simps)
  have 3: "make_build_dirs d locked_down_world = (Inr (), locked_down_world)"
    if "build_dir d = ''_build/parts''" for d :: "(string, string) node"
    using that
    by (simp add: make_build_dirs_def mkdir_def path_exists_def locked_down_world_def part_simps)
  have 4: "make_build_dirs part locked_down_world = (Inr (), locked_down_world)"
    by (rule 3) (simp add: part_def)
  have 5: "init part_hooks ''Part'' ''parts/part.py'' None True [] None locked_down_world =
     (Inr part, locked_down_world)"
    by (simp add: init_def Let_def 3 dirname_def path_join_def part_hooks_def part_def)
  show ?thesis using 1 2 4 5 by simp
qed

end
